theory Spec2Isabelle
  imports Complex_Main "HOL-Library.AList"
begin

section \<open>Real gold price pipeline of \<open>src/Python/oro.py\<close>\<close>

text \<open>
  The script is one straight run: fetch the monthly gold price, plot it, load the Spanish
  CPI rates, join both on the period, build a cumulative CPI index, deflate the price,
  derive growth columns, write the table and compute two kinds of CAGR. Below, every
  statement of the script that computes something is a HOL function with the name the
  script gives to its result, and the run as a whole is the function \<open>script\<close>.
\<close>

subsection \<open>Floats\<close>

text \<open>
  The script computes in binary64. numpy and pandas do not raise on a division by zero or
  on a fractional power of a negative number: they give \<open>inf\<close> or \<open>nan\<close> (with a warning)
  and go on. A value of the model is a real number, \<open>Infinity\<close> or \<open>NaN\<close>. Signs of zeros and of
  infinities are not told apart: \<open>Num 0\<close> is \<open>0.0\<close> or \<open>-0.0\<close>, \<open>Infinity\<close> is \<open>inf\<close> or \<open>-inf\<close>.
  The prices and the rates that come in are finite numbers.
\<close>

datatype fnum = Num real | Infinity | NaN

text \<open>
  How the exact result of an operation on finite numbers is stored is a parameter of
  every operation, its format. \<open>exact\<close> stores it as it is: arithmetic on the reals, with
  no rounding, overflow or underflow. \<open>binary64_range\<close> adds the overflow of binary64 with
  rounding to nearest: a result of magnitude \<open>2^1024 - 2^970\<close> or more is stored as
  \<open>inf\<close>; a smaller one is stored as it is, its rounding to 53 bits left out.
\<close>

type_synonym format = "real \<Rightarrow> fnum"

definition exact :: format where
  "exact x = Num x"

definition binary64_range :: format where
  "binary64_range x = (if 2 ^ 1024 - 2 ^ 970 \<le> \<bar>x\<bar> then Infinity else Num x)"

text \<open>\<open>0 * inf\<close> is \<open>nan\<close>.\<close>

fun fmul :: "format \<Rightarrow> fnum \<Rightarrow> fnum \<Rightarrow> fnum" where
  "fmul fmt (Num x) (Num y) = fmt (x * y)"
| "fmul fmt (Num x) Infinity = (if x = 0 then NaN else Infinity)"
| "fmul fmt Infinity (Num y) = (if y = 0 then NaN else Infinity)"
| "fmul fmt Infinity Infinity = Infinity"
| "fmul fmt _ _ = NaN"

text \<open>The script only adds the constant 1 to a value and takes the constant 1 from one.\<close>

fun fadd :: "format \<Rightarrow> real \<Rightarrow> fnum \<Rightarrow> fnum" where
  "fadd fmt c (Num y) = fmt (c + y)"
| "fadd fmt c Infinity = Infinity"
| "fadd fmt c NaN = NaN"

fun fsub :: "format \<Rightarrow> fnum \<Rightarrow> real \<Rightarrow> fnum" where
  "fsub fmt (Num x) c = fmt (x - c)"
| "fsub fmt Infinity c = Infinity"
| "fsub fmt NaN c = NaN"

text \<open>
  \<open>x / 0\<close> on numpy floats is \<open>inf\<close>, \<open>-inf\<close> or, for \<open>0 / 0\<close>, \<open>nan\<close>, never an
  exception; \<open>x / inf\<close> is zero and \<open>inf / inf\<close> is \<open>nan\<close>.
\<close>

fun fdiv :: "format \<Rightarrow> fnum \<Rightarrow> fnum \<Rightarrow> fnum" where
  "fdiv fmt (Num x) (Num y) = (if y = 0 then (if x = 0 then NaN else Infinity) else fmt (x / y))"
| "fdiv fmt (Num x) Infinity = Num 0"
| "fdiv fmt Infinity (Num y) = Infinity"
| "fdiv fmt _ _ = NaN"

text \<open>\<open>series ** 12\<close>: a power with a literal integer exponent.\<close>

fun fpown :: "format \<Rightarrow> fnum \<Rightarrow> nat \<Rightarrow> fnum" where
  "fpown fmt (Num x) n = fmt (x ^ n)"
| "fpown fmt Infinity n = (if n = 0 then Num 1 else Infinity)"
| "fpown fmt NaN n = (if n = 0 then Num 1 else NaN)"

text \<open>
  \<open>numpy.float64 ** float\<close>: the C library's \<open>pow\<close>, with a finite exponent. A positive
  base takes any exponent; zero to a negative exponent is \<open>inf\<close>; a negative base takes
  whole exponents only, any other exponent gives \<open>nan\<close>; \<open>inf\<close> to a positive exponent is
  \<open>inf\<close>, to a negative exponent zero; anything to the exponent 0 is 1. No case raises.
\<close>

fun fpow :: "format \<Rightarrow> fnum \<Rightarrow> real \<Rightarrow> fnum" where
  "fpow fmt (Num x) e =
     (if 0 < x then fmt (x powr e)
      else if x = 0 then (if 0 < e then Num 0 else if e = 0 then Num 1 else Infinity)
      else if e = of_int \<lfloor>e\<rfloor> then fmt (power_int x \<lfloor>e\<rfloor>)
      else NaN)"
| "fpow fmt Infinity e = (if 0 < e then Infinity else if e = 0 then Num 1 else Num 0)"
| "fpow fmt NaN e = (if e = 0 then Num 1 else NaN)"


subsection \<open>Periods\<close>

text \<open>
  A period is a pandas \<open>Timestamp\<close> at midnight: a date of the proleptic Gregorian
  calendar. \<open>toordinal\<close> counts its days as Python's \<open>datetime\<close> does, so that the
  difference of two ordinals is the \<open>.days\<close> of the difference of two timestamps.
\<close>

datatype timestamp = Timestamp (year: int) (month: nat) (day: nat)

definition is_leap :: "int \<Rightarrow> bool" where
  "is_leap y \<longleftrightarrow> y mod 4 = 0 \<and> (y mod 100 \<noteq> 0 \<or> y mod 400 = 0)"

definition days_before_year :: "int \<Rightarrow> int" where
  "days_before_year y = (y - 1) * 365 + (y - 1) div 4 - (y - 1) div 100 + (y - 1) div 400"

definition days_in_month :: "int \<Rightarrow> nat \<Rightarrow> int" where
  "days_in_month y m =
     (if m = 2 then (if is_leap y then 29 else 28)
      else if m = 4 \<or> m = 6 \<or> m = 9 \<or> m = 11 then 30 else 31)"

definition days_before_month :: "int \<Rightarrow> nat \<Rightarrow> int" where
  "days_before_month y m = sum_list (map (days_in_month y) [1 ..< m])"

definition toordinal :: "timestamp \<Rightarrow> int" where
  "toordinal t = days_before_year (year t) + days_before_month (year t) (month t) + int (day t)"

subsection \<open>Errors\<close>

text \<open>
  \<open>FetchError\<close> and \<open>ParseError\<close> are whatever the two external loaders raise;
  \<open>IndexError\<close> is raised by \<open>.iloc[0]\<close> on an empty column, \<open>ZeroDivisionError\<close> by
  Python's \<open>1 / 0.0\<close>.
\<close>

datatype error = FetchError | ParseError | IndexError | ZeroDivisionError

subsection \<open>Filter and join (lines 44 and 65)\<close>

type_synonym series = "(timestamp \<times> real) list"

text \<open>\<open>df_oro = df[df['period'] >= '2000-01-01'][['period', 'value']]\<close>\<close>

definition df_oro :: "series \<Rightarrow> series" where
  "df_oro df = filter (\<lambda>(p, v). toordinal (Timestamp 2000 1 1) \<le> toordinal p) df"

text \<open>
  \<open>pd.merge(df_oro, df_ipc, on='period', how='inner')\<close>: the rows of the left frame in
  their order, each paired with every row of the right frame that has the same period.
  A merged row is (period, value, IPC).
\<close>

type_synonym merged = "(timestamp \<times> real \<times> real) list"

definition merge_inner :: "series \<Rightarrow> series \<Rightarrow> merged" where
  "merge_inner l r =
     concat (map (\<lambda>(p, v). map (\<lambda>(q, c). (p, v, c)) (filter (\<lambda>(q, c). q = p) r)) l)"

definition col_period :: "merged \<Rightarrow> timestamp list" where
  "col_period m = map (\<lambda>(p, v, c). p) m"

definition col_value :: "merged \<Rightarrow> real list" where
  "col_value m = map (\<lambda>(p, v, c). v) m"

definition col_IPC :: "merged \<Rightarrow> real list" where
  "col_IPC m = map (\<lambda>(p, v, c). c) m"

subsection \<open>Index and real price (lines 68 to 70)\<close>

text \<open>
  \<open>Series.cumprod()\<close>: the running product. Its first element is the first element of the
  series itself; each later one is the product so far times the next element.
\<close>

fun cumprod_from :: "format \<Rightarrow> fnum \<Rightarrow> fnum list \<Rightarrow> fnum list" where
  "cumprod_from fmt acc [] = []"
| "cumprod_from fmt acc (x # xs) = fmul fmt acc x # cumprod_from fmt (fmul fmt acc x) xs"

definition cumprod :: "format \<Rightarrow> fnum list \<Rightarrow> fnum list" where
  "cumprod fmt xs = (case xs of [] \<Rightarrow> [] | x # rest \<Rightarrow> x # cumprod_from fmt x rest)"

text \<open>\<open>df['IPC_indice'] = 100 * (1 + df['IPC'] / 100).cumprod()\<close>\<close>

definition IPC_indice :: "format \<Rightarrow> real list \<Rightarrow> fnum list" where
  "IPC_indice fmt ipc =
     map (\<lambda>p. fmul fmt (Num 100) p)
       (cumprod fmt (map (\<lambda>r. fadd fmt 1 (fdiv fmt (Num r) (Num 100))) ipc))"

text \<open>
  \<open>df['value_real'] = df['value'] * (df['IPC_indice'].iloc[0] / df['IPC_indice'])\<close>.
  \<open>.iloc[0]\<close> raises on an empty column.
\<close>

definition value_real :: "format \<Rightarrow> real list \<Rightarrow> fnum list \<Rightarrow> error + fnum list" where
  "value_real fmt val idx =
     (case idx of
        [] \<Rightarrow> Inl IndexError
      | i0 # _ \<Rightarrow> Inr (map (\<lambda>(v, i). fmul fmt (Num v) (fdiv fmt i0 i)) (zip val idx)))"

subsection \<open>Growth columns (lines 84 to 101)\<close>

text \<open>
  \<open>Series.pct_change()\<close>: each element divided by the one before it, minus one; the
  first element has no predecessor and is \<open>nan\<close>.
\<close>

definition pct_change :: "format \<Rightarrow> fnum list \<Rightarrow> fnum list" where
  "pct_change fmt xs =
     (case xs of
        [] \<Rightarrow> []
      | _ # rest \<Rightarrow> NaN # map (\<lambda>(prev, cur). fsub fmt (fdiv fmt cur prev) 1) (zip xs rest))"

definition real_monthly_change :: "format \<Rightarrow> fnum list \<Rightarrow> fnum list" where
  "real_monthly_change fmt vr = map (\<lambda>x. fmul fmt x (Num 100)) (pct_change fmt vr)"

definition real_cumulative_change :: "format \<Rightarrow> fnum list \<Rightarrow> error + fnum list" where
  "real_cumulative_change fmt vr =
     (case vr of
        [] \<Rightarrow> Inl IndexError
      | v0 # _ \<Rightarrow> Inr (map (\<lambda>v. fmul fmt (fsub fmt (fdiv fmt v v0) 1) (Num 100)) vr))"

definition real_annualized_change :: "format \<Rightarrow> fnum list \<Rightarrow> fnum list" where
  "real_annualized_change fmt mc =
     map (\<lambda>x. fmul fmt (fsub fmt (fpown fmt (fadd fmt 1 (fdiv fmt x (Num 100))) 12) 1) (Num 100))
       mc"

subsection \<open>CAGR of each year (lines 117 to 124)\<close>

text \<open>
  The body of the loop, on the \<open>value_real\<close> column of one group:
  \<open>(valor_final / valor_inicial) ** (12 / n_months) - 1\<close>, stored times 100. The exponent
  is a Python float, taken here as the exact quotient.
\<close>

definition cagr_year :: "format \<Rightarrow> fnum list \<Rightarrow> error + fnum" where
  "cagr_year fmt grp =
     (case grp of
        [] \<Rightarrow> Inl IndexError
      | valor_inicial # _ \<Rightarrow>
          let valor_final = last grp;
              n_months = length grp
          in Inr (fmul fmt
                    (fsub fmt (fpow fmt (fdiv fmt valor_final valor_inicial) (12 / real n_months)) 1)
                    (Num 100)))"

fun collect :: "(error + 'a) list \<Rightarrow> error + 'a list" where
  "collect [] = Inr []"
| "collect (x # xs) =
     (case x of
        Inl e \<Rightarrow> Inl e
      | Inr v \<Rightarrow> (case collect xs of Inl e \<Rightarrow> Inl e | Inr vs \<Rightarrow> Inr (v # vs)))"

text \<open>
  \<open>groupby('year')\<close> gives the years in ascending order, each with its rows in the order
  of the table; the dictionary keeps that order.
\<close>

definition cagr_per_year ::
  "format \<Rightarrow> timestamp list \<Rightarrow> fnum list \<Rightarrow> error + (int \<times> fnum) list" where
  "cagr_per_year fmt period vr =
     collect (map (\<lambda>y. case cagr_year fmt (map snd (filter (\<lambda>(p, x). year p = y) (zip period vr))) of
                          Inl e \<Rightarrow> Inl e
                        | Inr c \<Rightarrow> Inr (y, c))
                (sort (remdups (map year period))))"

subsection \<open>CAGR of the whole period (lines 138 to 142)\<close>

text \<open>
  \<open>n_years\<close> is a Python float (\<open>.days\<close> is an \<open>int\<close>), so \<open>1 / n_years\<close> raises
  \<open>ZeroDivisionError\<close> when it is zero, which it is for a span of 0 days only. The base is
  a numpy float and is computed first. Each \<open>.iloc\<close> raises on an empty column. The
  exponent is taken as the exact quotient.
\<close>

definition cagr :: "format \<Rightarrow> timestamp list \<Rightarrow> fnum list \<Rightarrow> error + fnum" where
  "cagr fmt period vr =
     (case vr of
        [] \<Rightarrow> Inl IndexError
      | valor_inicial # _ \<Rightarrow>
     (case period of
        [] \<Rightarrow> Inl IndexError
      | period_first # _ \<Rightarrow>
          let valor_final = last vr;
              n_years = real_of_int (toordinal (last period) - toordinal period_first) / 365.25;
              base = fdiv fmt valor_final valor_inicial
          in if n_years = 0 then Inl ZeroDivisionError
             else Inr (fsub fmt (fpow fmt base (1 / n_years)) 1)))"

text \<open>Lines 68 to 70 and 138 to 142 together: from the merged rows to the whole-period CAGR.\<close>

definition cagr_of_merged :: "format \<Rightarrow> merged \<Rightarrow> error + fnum" where
  "cagr_of_merged fmt m =
     (case value_real fmt (col_value m) (IPC_indice fmt (col_IPC m)) of
        Inl e \<Rightarrow> Inl e
      | Inr vr \<Rightarrow> cagr fmt (col_period m) vr)"

subsection \<open>The table and what the run leaves behind\<close>

text \<open>
  A \<open>DataFrame\<close> is its columns in order, each a name and its cells. Assigning to
  \<open>df[name]\<close> replaces the column of that name where it stands, or adds a new last column.
\<close>

datatype cell = Date timestamp | Float fnum | Integer int

type_synonym dataframe = "(string \<times> cell list) list"

definition assign :: "dataframe \<Rightarrow> string \<Rightarrow> cell list \<Rightarrow> dataframe" where
  "assign df name col = AList.update name col df"

definition columns :: "dataframe \<Rightarrow> string list" where
  "columns df = map fst df"

text \<open>The frame that \<open>pd.merge\<close> returns: the key, then the other column of each side.\<close>

definition frame_of_merged :: "merged \<Rightarrow> dataframe" where
  "frame_of_merged m =
     [(''period'', map Date (col_period m)),
      (''value'', map (\<lambda>v. Float (Num v)) (col_value m)),
      (''IPC'', map (\<lambda>c. Float (Num c)) (col_IPC m))]"

text \<open>
  What a run leaves behind, in the order it is produced: a figure shown (its title and
  its lines or bars, each a label, the x cells and the y values), a CSV file written
  with \<open>index=False\<close> (its name and the frame at that moment), a number printed.
\<close>

datatype artifact =
    Figure string "(string \<times> cell list \<times> fnum list) list"
  | CsvFile string dataframe
  | Stdout fnum

text \<open>
  What the script reads. \<open>fetch_series\<close> is what the call of line 30 returns, as the rows
  (period, value) of its frame, or raises. \<open>read_ipc\<close> is what lines 58 to 63 return, the
  rows (period, IPC) of \<open>df_ipc\<close>, or raise.
\<close>

record world =
  fetch_series :: "error + series"
  read_ipc :: "error + series"

text \<open>
  The end of a run: the artifacts produced, the exception that stopped it if one did, and
  otherwise the final values of \<open>df_oro_ipc\<close>, \<open>cagr_per_year\<close> and \<open>cagr\<close>.
\<close>

record outcome =
  artifacts :: "artifact list"
  raised :: "error option"
  final :: "(dataframe \<times> (int \<times> fnum) list \<times> fnum) option"

definition abort :: "artifact list \<Rightarrow> error \<Rightarrow> outcome" where
  "abort out e = \<lparr>artifacts = out, raised = Some e, final = None\<rparr>"

text \<open>Lines 46 to 53.\<close>

definition fig_nominal :: "series \<Rightarrow> artifact" where
  "fig_nominal g =
     Figure ''Precio mensual del oro (EUR) desde 2000''
       [([], map (\<lambda>(p, v). Date p) g, map (\<lambda>(p, v). Num v) g)]"

text \<open>Lines 71 to 80.\<close>

definition fig_real :: "merged \<Rightarrow> fnum list \<Rightarrow> artifact" where
  "fig_real m vr =
     Figure ''Precio mensual del oro: nominal vs real (ajustado por IPC)''
       [(''Precio nominal del oro (EUR)'', map Date (col_period m), map Num (col_value m)),
        (''Precio real del oro (EUR, ajustado IPC)'', map Date (col_period m), vr)]"

text \<open>Lines 89 to 97.\<close>

definition fig_cumulative :: "merged \<Rightarrow> fnum list \<Rightarrow> artifact" where
  "fig_cumulative m cc =
     Figure ''Incremento acumulado real del precio del oro (ajustado por IPC) desde 2000''
       [(''Incremento acumulado real (%)'', map Date (col_period m), cc)]"

text \<open>Lines 102 to 110.\<close>

definition fig_annualized :: "merged \<Rightarrow> fnum list \<Rightarrow> artifact" where
  "fig_annualized m ac =
     Figure ''Tasa anualizada del incremento real del precio del oro (ajustado por IPC)''
       [(''Tasa anualizada del incremento real (%)'', map Date (col_period m), ac)]"

text \<open>Lines 128 to 135.\<close>

definition fig_cagr :: "(int \<times> fnum) list \<Rightarrow> artifact" where
  "fig_cagr cpy =
     Figure ''CAGR anual del precio real del oro (ajustado por IPC)''
       [([], map (\<lambda>(y, c). Integer y) cpy, map (\<lambda>(y, c). c) cpy)]"

text \<open>
  Lines 65 to 143 on the merged rows, after the artifacts \<open>out\<close> of the lines before. Each
  \<open>case\<close> is a statement that can raise; the artifacts grow in the order of the script.
\<close>

definition engine :: "format \<Rightarrow> artifact list \<Rightarrow> merged \<Rightarrow> outcome" where
  "engine fmt out m =
     (case col_IPC m of
        [] \<Rightarrow> abort out IndexError
      | ipc_base # _ \<Rightarrow>
     let idx = IPC_indice fmt (col_IPC m) in
     case value_real fmt (col_value m) idx of
       Inl e \<Rightarrow> abort out e
     | Inr vr \<Rightarrow>
     let df1 = assign (frame_of_merged m) ''IPC_indice'' (map Float idx);
         df2 = assign df1 ''value_real'' (map Float vr);
         out2 = out @ [fig_real m vr];
         mc = real_monthly_change fmt vr;
         df3 = assign df2 ''real_monthly_change'' (map Float mc) in
     case real_cumulative_change fmt vr of
       Inl e \<Rightarrow> abort out2 e
     | Inr cc \<Rightarrow>
     let df4 = assign df3 ''real_cumulative_change'' (map Float cc);
         out3 = out2 @ [fig_cumulative m cc];
         ac = real_annualized_change fmt mc;
         df5 = assign df4 ''real_annualized_change'' (map Float ac);
         out4 = out3 @ [fig_annualized m ac];
         out5 = out4 @ [CsvFile ''precio_oro_eur.csv'' df5];
         df6 = assign df5 ''year'' (map (\<lambda>p. Integer (year p)) (col_period m)) in
     case cagr_per_year fmt (col_period m) vr of
       Inl e \<Rightarrow> abort out5 e
     | Inr cpy \<Rightarrow>
     let out6 = out5 @ [fig_cagr cpy] in
     case cagr fmt (col_period m) vr of
       Inl e \<Rightarrow> abort out6 e
     | Inr c \<Rightarrow>
         \<lparr>artifacts = out6 @ [Stdout (fmul fmt c (Num 100))], raised = None,
          final = Some (df6, cpy, c)\<rparr>)"

text \<open>The whole script.\<close>

definition script :: "format \<Rightarrow> world \<Rightarrow> outcome" where
  "script fmt w =
     (case fetch_series w of
        Inl e \<Rightarrow> abort [] e
      | Inr df \<Rightarrow>
     let out1 = [fig_nominal (df_oro df)] in
     case read_ipc w of
       Inl e \<Rightarrow> abort out1 e
     | Inr df_ipc \<Rightarrow> engine fmt out1 (merge_inner (df_oro df) df_ipc))"

section \<open>Properties\<close>

subsection \<open>The running product over exact arithmetic\<close>

lemma length_cumprod_from: "length (cumprod_from fmt a xs) = length xs"
  by (induction xs arbitrary: a) simp_all

lemma length_cumprod: "length (cumprod fmt xs) = length xs"
  by (cases xs) (simp_all add: cumprod_def length_cumprod_from)

lemma length_IPC_indice: "length (IPC_indice fmt ipc) = length ipc"
  by (simp add: IPC_indice_def length_cumprod)

lemma nth_cumprod_from_exact:
  "i < length xs \<Longrightarrow>
     cumprod_from exact (Num a) (map Num xs) ! i = Num (a * prod_list (take (Suc i) xs))"
proof (induction xs arbitrary: a i)
  case Nil
  then show ?case by simp
next
  case (Cons x xs)
  show ?case
  proof (cases i)
    case 0
    then show ?thesis by (simp add: exact_def)
  next
    case (Suc j)
    with Cons.prems have "j < length xs" by simp
    from Cons.IH [OF this, of "a * x"] Suc show ?thesis
      by (simp add: exact_def mult.assoc)
  qed
qed

lemma nth_cumprod_exact:
  assumes "i < length xs"
  shows "cumprod exact (map Num xs) ! i = Num (prod_list (take (Suc i) xs))"
proof (cases xs)
  case Nil
  with assms show ?thesis by simp
next
  case (Cons x rest)
  show ?thesis
  proof (cases i)
    case 0
    with Cons show ?thesis by (simp add: cumprod_def)
  next
    case (Suc j)
    with assms Cons have "j < length rest" by simp
    from nth_cumprod_from_exact [OF this, of x] Cons Suc show ?thesis
      by (simp add: cumprod_def)
  qed
qed

lemma factors_exact:
  "map (\<lambda>r. fadd exact 1 (fdiv exact (Num r) (Num 100))) ipc = map Num (map (\<lambda>r. 1 + r / 100) ipc)"
  by (simp add: exact_def)

lemma nth_IPC_indice_exact:
  assumes "i < length ipc"
  shows "IPC_indice exact ipc ! i
    = Num (100 * prod_list (take (Suc i) (map (\<lambda>r. 1 + r / 100) ipc)))"
proof -
  let ?f = "map (\<lambda>r. 1 + r / 100) ipc"
  from assms have i: "i < length ?f" by simp
  have "IPC_indice exact ipc ! i = fmul exact (Num 100) (cumprod exact (map Num ?f) ! i)"
    using assms unfolding IPC_indice_def factors_exact by (simp add: length_cumprod)
  also have "\<dots> = Num (100 * prod_list (take (Suc i) ?f))"
    using nth_cumprod_exact [OF i] by (simp add: exact_def)
  finally show ?thesis .
qed

text \<open>
  Over exact arithmetic every value of the index is a number: the index is a list of reals,
  each 100 times the product of the factors \<open>1 + IPC / 100\<close> up to its row.
\<close>

lemma IPC_indice_exact_reals:
  obtains ix where "IPC_indice exact ipc = map Num ix" and "length ix = length ipc"
    and "\<And>i. i < length ipc \<Longrightarrow>
           ix ! i = 100 * prod_list (take (Suc i) (map (\<lambda>r. 1 + r / 100) ipc))"
proof -
  define ix where
    "ix = map (\<lambda>i. 100 * prod_list (take (Suc i) (map (\<lambda>r. 1 + r / 100) ipc))) [0 ..< length ipc]"
  have len: "length ix = length ipc" by (simp add: ix_def)
  have nth: "ix ! i = 100 * prod_list (take (Suc i) (map (\<lambda>r. 1 + r / 100) ipc))"
    if "i < length ipc" for i
    using that by (simp add: ix_def)
  have "IPC_indice exact ipc = map Num ix"
  proof (rule nth_equalityI)
    show "length (IPC_indice exact ipc) = length (map Num ix)"
      by (simp add: length_IPC_indice len)
  next
    fix i
    assume "i < length (IPC_indice exact ipc)"
    then have i: "i < length ipc" by (simp add: length_IPC_indice)
    then show "IPC_indice exact ipc ! i = map Num ix ! i"
      by (simp add: nth_IPC_indice_exact nth len)
  qed
  with len nth show thesis using that by blast
qed

lemma prod_take_first:
  fixes f :: "real list"
  assumes "f \<noteq> []"
  shows "prod_list (take (Suc 0) f) = f ! 0"
  using assms by (cases f) simp_all

lemma prod_take_step:
  fixes f :: "real list"
  assumes "0 < i" and "i < length f"
  shows "prod_list (take (Suc i) f) = prod_list (take (Suc (i - 1)) f) * f ! i"
proof -
  have "take (Suc i) f = take i f @ [f ! i]"
    using assms(2) by (rule take_Suc_conv_app_nth)
  moreover from assms(1) have "Suc (i - 1) = i" by simp
  ultimately show ?thesis by simp
qed

lemma prod_list_pos:
  fixes xs :: "real list"
  shows "\<forall>x \<in> set xs. 0 < x \<Longrightarrow> 0 < prod_list xs"
  by (induction xs) simp_all

lemma prod_take_pos:
  fixes f :: "real list"
  assumes "\<forall>x \<in> set f. 0 < x"
  shows "0 < prod_list (take n f)"
proof -
  from assms have "\<forall>x \<in> set (take n f). 0 < x" by (meson in_set_takeD)
  then show ?thesis by (rule prod_list_pos)
qed

text \<open>A later product that is not zero has no zero factor: the first factor is not zero.\<close>

lemma prod_take_first_nonzero:
  fixes f :: "real list"
  assumes "i < length f" and "prod_list (take (Suc i) f) \<noteq> 0"
  shows "f ! 0 \<noteq> 0"
proof -
  from assms(1) obtain x rest where "f = x # rest" by (cases f) auto
  with assms(2) show ?thesis by simp
qed

subsection \<open>The real price\<close>

lemma col_lengths:
  "length (col_period m) = length m" "length (col_value m) = length m"
  "length (col_IPC m) = length m"
  by (simp_all add: col_period_def col_value_def col_IPC_def)

lemma value_real_Inr:
  assumes "idx \<noteq> []"
  shows "value_real fmt val idx =
    Inr (map (\<lambda>(v, i). fmul fmt (Num v) (fdiv fmt (idx ! 0) i)) (zip val idx))"
  using assms by (cases idx) (simp_all add: value_real_def)

lemma value_real_nth:
  assumes "value_real fmt val idx = Inr vr" and "i < length val" and "i < length idx"
  shows "vr ! i = fmul fmt (Num (val ! i)) (fdiv fmt (idx ! 0) (idx ! i))"
  using assms by (cases idx) (auto simp: value_real_def)

lemma value_real_length:
  assumes "value_real fmt val idx = Inr vr"
  shows "length vr = min (length val) (length idx)"
  using assms by (cases idx) (auto simp: value_real_def)

lemma value_real_merged:
  assumes "m \<noteq> []"
  obtains vr where "value_real fmt (col_value m) (IPC_indice fmt (col_IPC m)) = Inr vr"
    and "length vr = length m"
    and "\<And>i. i < length m \<Longrightarrow>
          vr ! i = fmul fmt (Num (col_value m ! i))
                     (fdiv fmt (IPC_indice fmt (col_IPC m) ! 0) (IPC_indice fmt (col_IPC m) ! i))"
proof -
  let ?idx = "IPC_indice fmt (col_IPC m)"
  from assms have "?idx \<noteq> []"
    using length_IPC_indice [of fmt "col_IPC m"] col_lengths(3) [of m] by auto
  then obtain vr where vr: "value_real fmt (col_value m) ?idx = Inr vr"
    using value_real_Inr by blast
  have len: "length vr = length m"
    using value_real_length [OF vr] by (simp add: col_lengths length_IPC_indice)
  have "vr ! i = fmul fmt (Num (col_value m ! i)) (fdiv fmt (?idx ! 0) (?idx ! i))"
    if "i < length m" for i
    using value_real_nth [OF vr, of i] that by (simp add: col_lengths length_IPC_indice)
  with vr len show thesis using that by blast
qed

subsection \<open>Claims about the index and the real price\<close>

text \<open>
  C1 (anchoring), as the script has it. For every non-empty merged table, first over
  exact arithmetic, rounding aside: the index starts at \<open>100 * (1 + IPC[0] / 100)\<close> and
  each later index is the one before it times \<open>1 + IPC[i] / 100\<close>; the real price of a row
  whose index is not zero is \<open>value[i] * index[0] / index[i]\<close>; and when the first rate is
  not -100, so that the first index is not zero, the real price of the first row is its
  nominal price. Then in every format: the first index is \<open>100 * (1 + IPC[0] / 100)\<close> as
  the format computes it, and when it is a number other than zero, and the format stores 1
  and the first price as they are, the real price of the first row is its nominal price.
\<close>

theorem C1_anchoring:
  assumes "m \<noteq> []"
  shows "(\<exists>vr ix. value_real exact (col_value m) (IPC_indice exact (col_IPC m)) = Inr vr
        \<and> IPC_indice exact (col_IPC m) = map Num ix
        \<and> length vr = length m \<and> length ix = length m
        \<and> ix ! 0 = 100 * (1 + col_IPC m ! 0 / 100)
        \<and> (\<forall>i. 0 < i \<and> i < length m \<longrightarrow> ix ! i = ix ! (i - 1) * (1 + col_IPC m ! i / 100))
        \<and> (\<forall>i < length m. ix ! i \<noteq> 0 \<longrightarrow> vr ! i = Num (col_value m ! i * ix ! 0 / ix ! i))
        \<and> (col_IPC m ! 0 \<noteq> - 100 \<longrightarrow> vr ! 0 = Num (col_value m ! 0)))
    \<and> IPC_indice fmt (col_IPC m) ! 0
        = fmul fmt (Num 100) (fadd fmt 1 (fdiv fmt (Num (col_IPC m ! 0)) (Num 100)))
    \<and> (\<forall>x. IPC_indice fmt (col_IPC m) ! 0 = Num x \<and> x \<noteq> 0
            \<and> fmt 1 = Num 1 \<and> fmt (col_value m ! 0) = Num (col_value m ! 0)
          \<longrightarrow> (\<exists>vr. value_real fmt (col_value m) (IPC_indice fmt (col_IPC m)) = Inr vr
                \<and> vr ! 0 = Num (col_value m ! 0)))"
proof -
  let ?ipc = "col_IPC m"
  let ?f = "map (\<lambda>r. 1 + r / 100) ?ipc"
  from assms have ne: "?ipc \<noteq> []" and pos: "0 < length m" and n: "length ?ipc = length m"
    by (simp_all add: col_IPC_def)
  have part1: "\<exists>vr ix. value_real exact (col_value m) (IPC_indice exact ?ipc) = Inr vr
        \<and> IPC_indice exact ?ipc = map Num ix
        \<and> length vr = length m \<and> length ix = length m
        \<and> ix ! 0 = 100 * (1 + ?ipc ! 0 / 100)
        \<and> (\<forall>i. 0 < i \<and> i < length m \<longrightarrow> ix ! i = ix ! (i - 1) * (1 + ?ipc ! i / 100))
        \<and> (\<forall>i < length m. ix ! i \<noteq> 0 \<longrightarrow> vr ! i = Num (col_value m ! i * ix ! 0 / ix ! i))
        \<and> (?ipc ! 0 \<noteq> - 100 \<longrightarrow> vr ! 0 = Num (col_value m ! 0))"
  proof -
    from IPC_indice_exact_reals [of ?ipc] obtain ix
      where ix: "IPC_indice exact ?ipc = map Num ix" and len_ix: "length ix = length m"
        and nth_ix: "\<And>i. i < length m \<Longrightarrow> ix ! i = 100 * prod_list (take (Suc i) ?f)"
      using n by auto
    from value_real_merged [OF assms, of exact] obtain vr
      where vr: "value_real exact (col_value m) (IPC_indice exact ?ipc) = Inr vr"
        and len: "length vr = length m"
        and nth: "\<And>i. i < length m \<Longrightarrow>
            vr ! i = fmul exact (Num (col_value m ! i))
                       (fdiv exact (IPC_indice exact ?ipc ! 0) (IPC_indice exact ?ipc ! i))"
      by blast
    have first: "ix ! 0 = 100 * (1 + ?ipc ! 0 / 100)"
      using nth_ix [OF pos] prod_take_first [of ?f] ne pos n by (simp add: nth_map)
    have step: "ix ! i = ix ! (i - 1) * (1 + ?ipc ! i / 100)" if "0 < i" "i < length m" for i
    proof -
      from that n have "i < length ?f" and "i - 1 < length m" by simp_all
      with that show ?thesis
        using prod_take_step [of i ?f] by (simp add: nth_ix n)
    qed
    have defl: "vr ! i = Num (col_value m ! i * ix ! 0 / ix ! i)"
      if "i < length m" "ix ! i \<noteq> 0" for i
      using nth [OF that(1)] that pos by (simp add: ix len_ix exact_def)
    have anchor: "vr ! 0 = Num (col_value m ! 0)" if "?ipc ! 0 \<noteq> - 100"
    proof -
      from that first have "ix ! 0 \<noteq> 0" by simp
      with defl [OF pos] show ?thesis by simp
    qed
    from vr ix len len_ix first step defl anchor show ?thesis by blast
  qed
  from ne obtain r rest where ipc: "?ipc = r # rest" by (cases ?ipc) auto
  have part2: "IPC_indice fmt ?ipc ! 0
        = fmul fmt (Num 100) (fadd fmt 1 (fdiv fmt (Num (?ipc ! 0)) (Num 100)))"
    by (simp add: ipc IPC_indice_def cumprod_def)
  have part3: "\<exists>vr. value_real fmt (col_value m) (IPC_indice fmt ?ipc) = Inr vr
                \<and> vr ! 0 = Num (col_value m ! 0)"
    if "IPC_indice fmt ?ipc ! 0 = Num x" "x \<noteq> 0" "fmt 1 = Num 1"
      "fmt (col_value m ! 0) = Num (col_value m ! 0)" for x
  proof -
    from value_real_merged [OF assms, of fmt] obtain vr
      where vr: "value_real fmt (col_value m) (IPC_indice fmt ?ipc) = Inr vr"
        and nth: "\<And>i. i < length m \<Longrightarrow>
            vr ! i = fmul fmt (Num (col_value m ! i))
                       (fdiv fmt (IPC_indice fmt ?ipc ! 0) (IPC_indice fmt ?ipc ! i))"
      by blast
    from nth [OF pos] that have "vr ! 0 = Num (col_value m ! 0)" by simp
    with vr show ?thesis by blast
  qed
  from part1 part2 part3 show ?thesis by blast
qed

theorem C1_anchoring_witness:
  "[(Timestamp 2000 1 1, 100, 1 / 2), (Timestamp 2000 2 1, 102, 3 / 10)] \<noteq> ([] :: merged)
   \<and> IPC_indice exact [1 / 2, 3 / 10] = [Num (201 / 2), Num (201 / 2 * (1 + 3 / 10 / 100))]
   \<and> value_real exact [100, 102] (IPC_indice exact [1 / 2, 3 / 10])
       = Inr [Num 100, Num (102 * (201 / 2) / (201603 / 2000))]
   \<and> IPC_indice binary64_range [1 / 2, 3 / 10] ! 0 = Num (201 / 2)
   \<and> binary64_range 1 = Num 1 \<and> binary64_range 100 = Num 100
   \<and> (\<exists>vr. value_real binary64_range [100, 102] (IPC_indice binary64_range [1 / 2, 3 / 10]) = Inr vr
        \<and> vr ! 0 = Num 100)"
  using C1_anchoring [of "[(Timestamp 2000 1 1, 100, 1 / 2), (Timestamp 2000 2 1, 102, 3 / 10)]"
      binary64_range]
  by (simp add: col_value_def col_IPC_def IPC_indice_def cumprod_def value_real_def exact_def
      binary64_range_def)

text \<open>
  The claim as the specification states it, for every non-empty merged table, fails where
  the first rate is -100: the first index is then zero, \<open>index[0] / index[0]\<close> is
  \<open>nan\<close>, and the real price of the first row is not its nominal price. Every operation
  on this input is exact in binary64.
\<close>

theorem C1_counterexample:
  "col_value [(Timestamp 2000 1 1, 100, - 100)] = [100]
   \<and> IPC_indice binary64_range (col_IPC [(Timestamp 2000 1 1, 100, - 100)]) = [Num 0]
   \<and> value_real binary64_range (col_value [(Timestamp 2000 1 1, 100, - 100)])
        (IPC_indice binary64_range (col_IPC [(Timestamp 2000 1 1, 100, - 100)])) = Inr [NaN]
   \<and> IPC_indice exact (col_IPC [(Timestamp 2000 1 1, 100, - 100)]) = [Num 0]
   \<and> value_real exact (col_value [(Timestamp 2000 1 1, 100, - 100)])
        (IPC_indice exact (col_IPC [(Timestamp 2000 1 1, 100, - 100)])) = Inr [NaN]
   \<and> NaN \<noteq> Num 100"
  by (simp add: col_value_def col_IPC_def IPC_indice_def cumprod_def value_real_def exact_def
      binary64_range_def)

text \<open>
  C2 (round trip), as the script has it, over exact arithmetic. At every row whose index
  is not zero, the real price times that index, divided by the first index, is the nominal
  price again.
\<close>

theorem C2_round_trip:
  assumes "i < length m" and "IPC_indice exact (col_IPC m) ! i \<noteq> Num 0"
    and "value_real exact (col_value m) (IPC_indice exact (col_IPC m)) = Inr vr"
  shows "fdiv exact (fmul exact (vr ! i) (IPC_indice exact (col_IPC m) ! i))
           (IPC_indice exact (col_IPC m) ! 0)
         = Num (col_value m ! i)"
proof -
  let ?ipc = "col_IPC m"
  let ?idx = "IPC_indice exact ?ipc"
  let ?f = "map (\<lambda>r. 1 + r / 100) ?ipc"
  from assms(1) have i: "i < length ?ipc" "i < length (col_value m)" "i < length ?idx"
    and z: "0 < length ?ipc"
    by (auto simp: col_lengths length_IPC_indice)
  have xi: "?idx ! i = Num (100 * prod_list (take (Suc i) ?f))"
    using i(1) by (rule nth_IPC_indice_exact)
  have x0: "?idx ! 0 = Num (100 * prod_list (take (Suc 0) ?f))"
    using z by (rule nth_IPC_indice_exact)
  from assms(2) xi have nz: "prod_list (take (Suc i) ?f) \<noteq> 0" by simp
  from i(1) have "i < length ?f" by simp
  from prod_take_first_nonzero [OF this nz] z
  have nz0: "prod_list (take (Suc 0) ?f) \<noteq> 0"
    using prod_take_first [of ?f] by auto
  have "vr ! i = fmul exact (Num (col_value m ! i)) (fdiv exact (?idx ! 0) (?idx ! i))"
    using assms(3) i(2) i(3) by (rule value_real_nth)
  with nz nz0 show ?thesis
    by (simp add: xi x0 exact_def)
qed

theorem C2_round_trip_witness:
  "(1::nat) < length [(Timestamp 2000 1 1, 100 :: real, 1 / 2 :: real), (Timestamp 2000 2 1, 102, 3 / 10)]
   \<and> IPC_indice exact (col_IPC [(Timestamp 2000 1 1, 100, 1 / 2), (Timestamp 2000 2 1, 102, 3 / 10)]) ! 1
       \<noteq> Num 0
   \<and> value_real exact (col_value [(Timestamp 2000 1 1, 100, 1 / 2), (Timestamp 2000 2 1, 102, 3 / 10)])
        (IPC_indice exact (col_IPC [(Timestamp 2000 1 1, 100, 1 / 2), (Timestamp 2000 2 1, 102, 3 / 10)]))
       = Inr [Num 100, Num (6000 / 59)]
   \<and> fdiv exact (fmul exact (Num (6000 / 59)) (Num (201603 / 2000))) (Num (201 / 2)) = Num 102"
  using C2_round_trip [of 1 "[(Timestamp 2000 1 1, 100, 1 / 2), (Timestamp 2000 2 1, 102, 3 / 10)]"
      "[Num 100, Num (6000 / 59)]"]
  by (simp add: col_value_def col_IPC_def IPC_indice_def cumprod_def value_real_def exact_def)

text \<open>
  The claim as the specification states it, at every position of every merged table, fails
  at a row whose rate is -100: its index is zero, its real price is \<open>inf\<close>, and
  \<open>inf * 0 / 100\<close> is \<open>nan\<close>, not the nominal price 50.
\<close>

theorem C2_counterexample:
  "col_value [(Timestamp 2000 1 1, 100, 0), (Timestamp 2000 2 1, 50, - 100)] = [100, 50]
   \<and> IPC_indice exact (col_IPC [(Timestamp 2000 1 1, 100, 0), (Timestamp 2000 2 1, 50, - 100)])
       = [Num 100, Num 0]
   \<and> value_real exact (col_value [(Timestamp 2000 1 1, 100, 0), (Timestamp 2000 2 1, 50, - 100)])
        (IPC_indice exact (col_IPC [(Timestamp 2000 1 1, 100, 0), (Timestamp 2000 2 1, 50, - 100)]))
       = Inr [Num 100, Infinity]
   \<and> fdiv exact (fmul exact Infinity (Num 0)) (Num 100) = NaN
   \<and> NaN \<noteq> Num 50"
  by (simp add: col_value_def col_IPC_def IPC_indice_def cumprod_def value_real_def exact_def)

text \<open>
  C8 (index positivity), as the script has it, over exact arithmetic, with no rounding
  and no underflow. When every rate is above -100, every value of the index is a positive
  number.
\<close>

theorem C8_index_positive:
  assumes "\<forall>r \<in> set ipc. - 100 < r"
  shows "\<forall>v \<in> set (IPC_indice exact ipc). \<exists>x. v = Num x \<and> 0 < x"
proof
  fix v
  assume "v \<in> set (IPC_indice exact ipc)"
  then obtain i where i: "i < length ipc" and v: "v = IPC_indice exact ipc ! i"
    by (auto simp: in_set_conv_nth length_IPC_indice)
  let ?f = "map (\<lambda>r. 1 + r / 100) ipc"
  have "\<forall>x \<in> set ?f. 0 < x" using assms by auto
  then have "0 < prod_list (take (Suc i) ?f)" by (rule prod_take_pos)
  with v i show "\<exists>x. v = Num x \<and> 0 < x"
    by (simp add: nth_IPC_indice_exact)
qed

theorem C8_index_positive_witness:
  "- 100 < (1 / 2 :: real) \<and> - 100 < (3 / 10 :: real) \<and> - 100 < (- (1 / 10) :: real)
   \<and> IPC_indice exact [1 / 2, 3 / 10, - (1 / 10)]
       = [Num (201 / 2), Num (201603 / 2000), Num (201401397 / 2000000)]
   \<and> (0 :: real) < 201 / 2 \<and> (0 :: real) < 201603 / 2000 \<and> (0 :: real) < 201401397 / 2000000"
  using C8_index_positive [of "[1 / 2, 3 / 10, - (1 / 10)]"]
  by (simp add: IPC_indice_def cumprod_def exact_def)

text \<open>
  The claim as the specification states it, with rates of -100 and above, fails at a rate
  of exactly -100: the index is zero there, which is not positive. Every operation on this
  input is exact in binary64.
\<close>

theorem C8_counterexample:
  "- 100 \<le> (- 100 :: real) \<and> IPC_indice exact [- 100] = [Num 0]
   \<and> IPC_indice binary64_range [- 100] = [Num 0] \<and> \<not> (0 :: real) < 0"
  by (simp add: IPC_indice_def cumprod_def exact_def binary64_range_def)

subsection \<open>The two kinds of CAGR\<close>

lemma collect_Inr:
  assumes "\<forall>x \<in> set xs. \<exists>v. x = Inr v"
  shows "\<exists>vs. collect xs = Inr vs"
  using assms by (induction xs) auto

lemma cagr_year_Inr:
  assumes "grp \<noteq> []"
  shows "\<exists>c. cagr_year fmt grp = Inr c"
  using assms by (cases grp) (simp_all add: cagr_year_def Let_def)

text \<open>A year taken from the period column has a row in its group: no group is empty.\<close>

lemma group_nonempty:
  assumes "length period = length vr" and "y \<in> set (map year period)"
  shows "map snd (filter (\<lambda>(p, x). year p = y) (zip period vr)) \<noteq> []"
proof -
  from assms(2) obtain i where i: "i < length period" and y: "year (period ! i) = y"
    by (auto simp: in_set_conv_nth)
  with assms(1) have "(period ! i, vr ! i) \<in> set (zip period vr)"
    by (auto simp: set_zip)
  with y have "(period ! i, vr ! i) \<in> set (filter (\<lambda>(p, x). year p = y) (zip period vr))"
    by simp
  then have "filter (\<lambda>(p, x). year p = y) (zip period vr) \<noteq> []"
    by (metis empty_iff list.set(1))
  then show ?thesis by simp
qed

lemma cagr_per_year_Inr:
  assumes "length period = length vr"
  shows "\<exists>cpy. cagr_per_year fmt period vr = Inr cpy"
proof -
  have "\<exists>v. (case cagr_year fmt (map snd (filter (\<lambda>(p, x). year p = y) (zip period vr))) of
               Inl e \<Rightarrow> Inl e | Inr c \<Rightarrow> Inr (y, c)) = Inr v"
    if "y \<in> set (sort (remdups (map year period)))" for y
  proof -
    from that have "y \<in> set (map year period)" by simp
    from group_nonempty [OF assms this] cagr_year_Inr
    obtain c where "cagr_year fmt (map snd (filter (\<lambda>(p, x). year p = y) (zip period vr))) = Inr c"
      by blast
    then show ?thesis by simp
  qed
  then show ?thesis
    unfolding cagr_per_year_def by (intro collect_Inr) auto
qed

lemma cagr_nonempty:
  assumes "vr \<noteq> []" and "period \<noteq> []"
  shows "cagr fmt period vr =
    (if toordinal (last period) = toordinal (hd period) then Inl ZeroDivisionError
     else Inr (fsub fmt (fpow fmt (fdiv fmt (last vr) (hd vr))
                 (1 / (real_of_int (toordinal (last period) - toordinal (hd period)) / 365.25)))
               1))"
  using assms by (cases vr; cases period) (simp_all add: cagr_def Let_def)

text \<open>
  The exponent \<open>1 / n_years\<close> is \<open>365.25 / days\<close>, that is \<open>1461 / (4 * days)\<close>, and 1461
  is odd: the exponent is never a whole number. It is never zero either, and has the sign
  of the span.
\<close>

lemma exponent_not_integer:
  fixes d :: int
  assumes "d \<noteq> 0"
  shows "1 / (real_of_int d / 365.25) \<noteq> of_int k"
proof
  assume "1 / (real_of_int d / 365.25) = of_int k"
  with assms have "(1461 :: real) = 4 * (real_of_int d * real_of_int k)"
    by (simp add: field_simps)
  then have "real_of_int 1461 = real_of_int (4 * (d * k))" by simp
  then have "(1461 :: int) = 4 * (d * k)" by (simp only: of_int_eq_iff)
  then show False by presburger
qed

lemma exponent_sign:
  fixes d :: int
  shows "0 < 1 / (real_of_int d / 365.25) \<longleftrightarrow> 0 < d"
    and "1 / (real_of_int d / 365.25) = 0 \<longleftrightarrow> d = 0"
  by (simp_all add: zero_less_divide_iff)

lemma fpow_negative_base:
  fixes d :: int
  assumes "x < 0" and "d \<noteq> 0"
  shows "fpow exact (Num x) (1 / (real_of_int d / 365.25)) = NaN"
  using assms exponent_not_integer [OF assms(2)] by simp

subsection \<open>Scaling the nominal prices, over exact arithmetic\<close>

lemma fdiv_scale:
  assumes "k \<noteq> 0"
  shows "fdiv exact (fmul exact (Num k) a) (fmul exact (Num k) b) = fdiv exact a b"
  using assms by (cases a; cases b) (simp_all add: exact_def)

lemma fmul_scale:
  assumes "k \<noteq> 0"
  shows "fmul exact (Num (k * v)) q = fmul exact (Num k) (fmul exact (Num v) q)"
  using assms by (cases q) (simp_all add: exact_def mult.assoc)

lemma value_real_scale:
  assumes "value_real exact val idx = Inr vr" and "k \<noteq> 0"
  shows "value_real exact (map (\<lambda>v. k * v) val) idx = Inr (map (fmul exact (Num k)) vr)"
proof -
  from assms(1) obtain i0 rest where idx: "idx = i0 # rest"
    by (cases idx) (simp_all add: value_real_def)
  from assms(1) idx
  have "vr = map (\<lambda>(v, i). fmul exact (Num v) (fdiv exact i0 i)) (zip val idx)"
    by (simp add: value_real_def)
  moreover have "value_real exact (map (\<lambda>v. k * v) val) idx
      = Inr (map (\<lambda>(v, i). fmul exact (Num (k * v)) (fdiv exact i0 i)) (zip val idx))"
    using idx by (simp add: value_real_def zip_map1 case_prod_unfold)
  ultimately show ?thesis
    by (simp add: fmul_scale [OF assms(2)] case_prod_unfold)
qed

lemma cagr_scale:
  assumes "k \<noteq> 0"
  shows "cagr exact period (map (fmul exact (Num k)) vr) = cagr exact period vr"
proof (cases "vr = [] \<or> period = []")
  case True
  then show ?thesis by (auto simp: cagr_def split: list.split)
next
  case False
  then have "map (fmul exact (Num k)) vr \<noteq> []" by simp
  with False assms show ?thesis
    by (simp add: cagr_nonempty hd_map last_map fdiv_scale)
qed

subsection \<open>The run\<close>

lemma columns_assign:
  "columns (assign df name col) =
     (if name \<in> set (columns df) then columns df else columns df @ [name])"
  by (simp add: columns_def assign_def update_keys)

lemma columns_frame_of_merged: "columns (frame_of_merged m) = [''period'', ''value'', ''IPC'']"
  by (simp add: columns_def frame_of_merged_def)

lemma real_cumulative_change_Inr:
  assumes "vr \<noteq> []"
  shows "\<exists>cc. real_cumulative_change fmt vr = Inr cc"
  using assms by (cases vr) (simp_all add: real_cumulative_change_def)

lemma case_list_const:
  assumes "xs \<noteq> []"
  shows "(case xs of [] \<Rightarrow> a | y # ys \<Rightarrow> b) = b"
  using assms by (cases xs) simp_all

lemma engine_empty: "engine fmt out [] = abort out IndexError"
  by (simp add: engine_def col_IPC_def)

text \<open>
  On a non-empty table, in every format, no statement before the last one raises: the run
  gets to the whole-period CAGR with four more figures and the file behind it.
\<close>

lemma engine_nonempty:
  assumes "m \<noteq> []"
  shows "\<exists>vr cc cpy df5 df6.
      value_real fmt (col_value m) (IPC_indice fmt (col_IPC m)) = Inr vr
    \<and> real_cumulative_change fmt vr = Inr cc
    \<and> cagr_per_year fmt (col_period m) vr = Inr cpy
    \<and> columns df5 = [''period'', ''value'', ''IPC'', ''IPC_indice'', ''value_real'',
         ''real_monthly_change'', ''real_cumulative_change'', ''real_annualized_change'']
    \<and> columns df6 = columns df5 @ [''year'']
    \<and> engine fmt out m =
        (case cagr fmt (col_period m) vr of
           Inl e \<Rightarrow>
             abort (out @ [fig_real m vr, fig_cumulative m cc,
                      fig_annualized m (real_annualized_change fmt (real_monthly_change fmt vr)),
                      CsvFile ''precio_oro_eur.csv'' df5, fig_cagr cpy]) e
         | Inr c \<Rightarrow>
             \<lparr>artifacts = out @ [fig_real m vr, fig_cumulative m cc,
                      fig_annualized m (real_annualized_change fmt (real_monthly_change fmt vr)),
                      CsvFile ''precio_oro_eur.csv'' df5, fig_cagr cpy,
                      Stdout (fmul fmt c (Num 100))],
              raised = None, final = Some (df6, cpy, c)\<rparr>)"
proof -
  from value_real_merged [OF assms, of fmt] obtain vr
    where vr: "value_real fmt (col_value m) (IPC_indice fmt (col_IPC m)) = Inr vr"
      and len: "length vr = length m"
    by blast
  from assms len have "vr \<noteq> []" by auto
  then obtain cc where cc: "real_cumulative_change fmt vr = Inr cc"
    using real_cumulative_change_Inr by blast
  from len obtain cpy where cpy: "cagr_per_year fmt (col_period m) vr = Inr cpy"
    using cagr_per_year_Inr [of "col_period m" vr fmt] by (auto simp: col_lengths)
  from assms have ne: "col_IPC m \<noteq> []"
    by (simp add: col_IPC_def)
  define df5 where "df5 =
    assign (assign (assign (assign (assign (frame_of_merged m)
      ''IPC_indice'' (map Float (IPC_indice fmt (col_IPC m))))
      ''value_real'' (map Float vr))
      ''real_monthly_change'' (map Float (real_monthly_change fmt vr)))
      ''real_cumulative_change'' (map Float cc))
      ''real_annualized_change''
        (map Float (real_annualized_change fmt (real_monthly_change fmt vr)))"
  define df6 where "df6 = assign df5 ''year'' (map (\<lambda>p. Integer (year p)) (col_period m))"
  have c5: "columns df5 = [''period'', ''value'', ''IPC'', ''IPC_indice'', ''value_real'',
         ''real_monthly_change'', ''real_cumulative_change'', ''real_annualized_change'']"
    by (simp add: df5_def columns_assign columns_frame_of_merged)
  have c6: "columns df6 = columns df5 @ [''year'']"
    by (simp add: df6_def columns_assign c5)
  have "engine fmt out m =
        (case cagr fmt (col_period m) vr of
           Inl e \<Rightarrow>
             abort (out @ [fig_real m vr, fig_cumulative m cc,
                      fig_annualized m (real_annualized_change fmt (real_monthly_change fmt vr)),
                      CsvFile ''precio_oro_eur.csv'' df5, fig_cagr cpy]) e
         | Inr c \<Rightarrow>
             \<lparr>artifacts = out @ [fig_real m vr, fig_cumulative m cc,
                      fig_annualized m (real_annualized_change fmt (real_monthly_change fmt vr)),
                      CsvFile ''precio_oro_eur.csv'' df5, fig_cagr cpy,
                      Stdout (fmul fmt c (Num 100))],
              raised = None, final = Some (df6, cpy, c)\<rparr>)"
    unfolding engine_def df5_def df6_def
    by (simp add: case_list_const [OF ne] vr cc cpy Let_def split: sum.split)
  with vr cc cpy c5 c6 show ?thesis by blast
qed

subsection \<open>Claims about the CAGR\<close>

lemmas ord_defs = toordinal_def days_before_year_def days_before_month_def days_in_month_def
  is_leap_def upt_rec

lemmas col_defs = col_period_def col_value_def col_IPC_def

lemmas engine_defs = engine_def abort_def value_real_def IPC_indice_def cumprod_def
  real_monthly_change_def pct_change_def real_cumulative_change_def real_annualized_change_def
  cagr_per_year_def cagr_year_def cagr_def frame_of_merged_def assign_def fig_real_def
  fig_cumulative_def fig_annualized_def fig_cagr_def Let_def

lemma cagr_of_merged_nonempty:
  assumes "m \<noteq> []"
  obtains vr where "value_real fmt (col_value m) (IPC_indice fmt (col_IPC m)) = Inr vr"
    and "vr \<noteq> []" and "cagr_of_merged fmt m = cagr fmt (col_period m) vr"
proof -
  from value_real_merged [OF assms, of fmt] obtain vr
    where vr: "value_real fmt (col_value m) (IPC_indice fmt (col_IPC m)) = Inr vr"
      and len: "length vr = length m"
    by blast
  from assms len have "vr \<noteq> []" by auto
  moreover from vr have "cagr_of_merged fmt m = cagr fmt (col_period m) vr"
    by (simp add: cagr_of_merged_def)
  ultimately show thesis using vr that by blast
qed

text \<open>Numbers of magnitude 2 or less are far inside the range of binary64.\<close>

lemma binary64_range_small:
  assumes "\<bar>x\<bar> \<le> 2"
  shows "binary64_range x = Num x"
proof -
  have "(2 :: real) < 2 ^ 1024 - 2 ^ 970" by simp
  with assms show ?thesis by (simp add: binary64_range_def)
qed

text \<open>
  C6 (single period). On a merged table of exactly one record the whole-period CAGR raises
  \<open>ZeroDivisionError\<close>, in every format: the first and the last period are the same, the
  span is zero days, \<open>n_years\<close> is \<open>0.0\<close> and \<open>1 / n_years\<close> raises. The run ends with that
  exception.
\<close>

theorem C6_single_record:
  assumes "length m = 1"
  shows "cagr_of_merged fmt m = Inl ZeroDivisionError
       \<and> raised (engine fmt out m) = Some ZeroDivisionError"
proof -
  from assms obtain r where m: "m = [r]" by (cases m) auto
  then have ne: "m \<noteq> []" and span: "toordinal (last (col_period m)) = toordinal (hd (col_period m))"
    by (simp_all add: col_period_def)
  from cagr_of_merged_nonempty [OF ne, of fmt] obtain vr
    where vr: "value_real fmt (col_value m) (IPC_indice fmt (col_IPC m)) = Inr vr"
      and vne: "vr \<noteq> []" and c: "cagr_of_merged fmt m = cagr fmt (col_period m) vr"
    by blast
  from ne have pne: "col_period m \<noteq> []" by (simp add: col_period_def)
  have z: "cagr fmt (col_period m) vr = Inl ZeroDivisionError"
    using span by (simp add: cagr_nonempty [OF vne pne])
  from engine_nonempty [OF ne, of fmt out] vr z
  have "raised (engine fmt out m) = Some ZeroDivisionError"
    by (auto simp: abort_def)
  with c z show ?thesis by simp
qed

theorem C6_single_record_witness:
  "length [(Timestamp 2000 1 1, 100 :: real, 1 / 2 :: real)] = 1
   \<and> cagr_of_merged exact [(Timestamp 2000 1 1, 100, 1 / 2)] = Inl ZeroDivisionError
   \<and> raised (engine exact [] [(Timestamp 2000 1 1, 100, 1 / 2)]) = Some ZeroDivisionError"
  using C6_single_record [of "[(Timestamp 2000 1 1, 100, 1 / 2)]" exact "[]"]
  by simp

text \<open>
  C7 (scale invariance), as the script has it, over exact arithmetic, with no rounding
  and no overflow. Multiplying every nominal price of a merged table of two or more
  records by a positive constant leaves the whole-period CAGR as it was.
\<close>

theorem C7_scale_invariance:
  assumes "2 \<le> length m" and "0 < k"
  shows "cagr_of_merged exact (map (\<lambda>(p, v, c). (p, k * v, c)) m) = cagr_of_merged exact m"
proof -
  let ?m' = "map (\<lambda>(p, v, c). (p, k * v, c)) m"
  from assms(1) have ne: "m \<noteq> []" by auto
  from assms(2) have k: "k \<noteq> 0" by simp
  have cols: "col_period ?m' = col_period m" "col_IPC ?m' = col_IPC m"
    "col_value ?m' = map (\<lambda>v. k * v) (col_value m)"
    by (simp_all add: col_defs case_prod_unfold)
  from cagr_of_merged_nonempty [OF ne, of exact] obtain vr
    where vr: "value_real exact (col_value m) (IPC_indice exact (col_IPC m)) = Inr vr"
      and c: "cagr_of_merged exact m = cagr exact (col_period m) vr"
    by blast
  from value_real_scale [OF vr k]
  have "cagr_of_merged exact ?m' = cagr exact (col_period m) (map (fmul exact (Num k)) vr)"
    by (simp add: cagr_of_merged_def cols)
  also from k have "\<dots> = cagr exact (col_period m) vr"
    by (simp add: cagr_scale)
  finally show ?thesis using c by simp
qed

theorem C7_scale_invariance_witness:
  "2 \<le> length [(Timestamp 2000 1 1, 100 :: real, 1 / 2 :: real), (Timestamp 2001 1 1, 200, 3 / 10)]
   \<and> (0 :: real) < 3
   \<and> cagr_of_merged exact [(Timestamp 2000 1 1, 3 * 100, 1 / 2), (Timestamp 2001 1 1, 3 * 200, 3 / 10)]
       = cagr_of_merged exact [(Timestamp 2000 1 1, 100, 1 / 2), (Timestamp 2001 1 1, 200, 3 / 10)]
   \<and> cagr_of_merged exact [(Timestamp 2000 1 1, 100, 1 / 2), (Timestamp 2001 1 1, 200, 3 / 10)]
       = Inr (Num ((2000 / 1003) powr (487 / 488) - 1))"
  using C7_scale_invariance
    [of "[(Timestamp 2000 1 1, 100, 1 / 2), (Timestamp 2001 1 1, 200, 3 / 10)]" 3]
  by (simp add: cagr_of_merged_def col_defs value_real_def IPC_indice_def cumprod_def cagr_def
      ord_defs exact_def)

text \<open>
  The claim as the specification states it, for the script's own arithmetic and every
  positive constant, fails by overflow. The prices 1 and 1 with the rates 0 and -50 give
  the real prices 1 and 2 and a finite CAGR. Times \<open>2^1023\<close>, a binary64 number, the
  prices are \<open>2^1023\<close> and \<open>2^1023\<close>, the last real price \<open>2^1023 * 2\<close> overflows to
  \<open>inf\<close>, and the CAGR is \<open>inf\<close>. Every operation before the power is exact in binary64
  on both tables.
\<close>

theorem C7_counterexample:
  "value_real binary64_range [1, 1] (IPC_indice binary64_range [0, - 50]) = Inr [Num 1, Num 2]
   \<and> cagr_of_merged binary64_range
        [(Timestamp 2000 1 1, 1, 0), (Timestamp 2001 1 1, 1, - 50)]
       = Inr (Num (2 powr (487 / 488) - 1))
   \<and> value_real binary64_range [2 ^ 1023 * 1, 2 ^ 1023 * 1] (IPC_indice binary64_range [0, - 50])
       = Inr [Num (2 ^ 1023), Infinity]
   \<and> cagr_of_merged binary64_range
        [(Timestamp 2000 1 1, 2 ^ 1023 * 1, 0), (Timestamp 2001 1 1, 2 ^ 1023 * 1, - 50)]
       = Inr Infinity
   \<and> Infinity \<noteq> Num (2 powr (487 / 488) - 1)"
proof -
  have p: "(1 :: real) \<le> 2 powr (487 / 488)" "(2 :: real) powr (487 / 488) \<le> 2"
  proof -
    show "(1 :: real) \<le> 2 powr (487 / 488)" by (rule ge_one_powr_ge_zero) simp_all
    have "(2 :: real) powr (487 / 488) \<le> 2 powr 1" by (rule powr_mono) simp_all
    then show "(2 :: real) powr (487 / 488) \<le> 2" by simp
  qed
  from p have s1: "binary64_range (2 powr (487 / 488)) = Num (2 powr (487 / 488))"
    by (intro binary64_range_small) simp
  from p have s2: "binary64_range (2 powr (487 / 488) - 1) = Num (2 powr (487 / 488) - 1)"
    by (intro binary64_range_small) simp
  have small: "binary64_range 2 = Num 2"
    by (simp add: binary64_range_def)
  have idx: "IPC_indice binary64_range [0, - 50] = [Num 100, Num 50]"
    by (simp add: IPC_indice_def cumprod_def binary64_range_def)
  have vr1: "value_real binary64_range [1, 1] [Num 100, Num 50] = Inr [Num 1, Num 2]"
    by (simp add: value_real_def binary64_range_def)
  have vr2: "value_real binary64_range [2 ^ 1023 * 1, 2 ^ 1023 * 1] [Num 100, Num 50]
      = Inr [Num (2 ^ 1023), Infinity]"
    by (simp add: value_real_def binary64_range_def)
  have c1: "cagr binary64_range [Timestamp 2000 1 1, Timestamp 2001 1 1] [Num 1, Num 2]
      = Inr (Num (2 powr (487 / 488) - 1))"
    by (simp add: cagr_def ord_defs small s1 s2)
  have c2: "cagr binary64_range [Timestamp 2000 1 1, Timestamp 2001 1 1] [Num (2 ^ 1023), Infinity]
      = Inr Infinity"
    by (simp add: cagr_def ord_defs)
  show ?thesis
    using idx vr1 vr2 c1 c2 by (simp add: cagr_of_merged_def col_defs)
qed

text \<open>
  C5 (non-positive real price), as the script has it. Neither CAGR computation has a guard
  and neither raises on a non-positive real price, in any format: on every non-empty
  merged table whose first and last period are not the same day, the per-year CAGR is
  computed for every year, the whole-period CAGR is computed, and the run ends without an
  exception. Over exact arithmetic the whole-period CAGR is \<open>nan\<close> when the ratio of the
  last to the first real price is negative. When the first real price is zero it is \<open>nan\<close>
  if the last is zero too, otherwise \<open>inf\<close> if the last period is after the first, and
  -1 if it is before.
\<close>

theorem C5_no_guard:
  assumes "m \<noteq> []"
    and "toordinal (last (col_period m)) \<noteq> toordinal (hd (col_period m))"
  shows "(\<exists>vr cpy c. value_real fmt (col_value m) (IPC_indice fmt (col_IPC m)) = Inr vr
            \<and> cagr_per_year fmt (col_period m) vr = Inr cpy
            \<and> cagr fmt (col_period m) vr = Inr c)
       \<and> raised (engine fmt out m) = None
       \<and> (\<forall>vr a b. value_real exact (col_value m) (IPC_indice exact (col_IPC m)) = Inr vr
              \<and> last vr = Num a \<and> hd vr = Num b \<and> b \<noteq> 0 \<and> a / b < 0
            \<longrightarrow> cagr exact (col_period m) vr = Inr NaN)
       \<and> (\<forall>vr a. value_real exact (col_value m) (IPC_indice exact (col_IPC m)) = Inr vr
              \<and> last vr = Num a \<and> hd vr = Num 0
            \<longrightarrow> cagr exact (col_period m) vr =
                 Inr (if a = 0 then NaN
                      else if toordinal (hd (col_period m)) < toordinal (last (col_period m))
                        then Infinity
                      else Num (- 1)))"
proof -
  let ?d = "toordinal (last (col_period m)) - toordinal (hd (col_period m))"
  let ?e = "1 / (real_of_int ?d / 365.25)"
  from assms(2) have d: "?d \<noteq> 0" by simp
  from assms(1) have pne: "col_period m \<noteq> []" by (simp add: col_period_def)
  have shape: "cagr f (col_period m) vr = Inr (fsub f (fpow f (fdiv f (last vr) (hd vr)) ?e) 1)"
    if "value_real f (col_value m) (IPC_indice f (col_IPC m)) = Inr vr" for f vr
  proof -
    from value_real_length [OF that] assms(1) have "vr \<noteq> []"
      by (auto simp: col_lengths length_IPC_indice)
    from cagr_nonempty [OF this pne] assms(2) show ?thesis by simp
  qed
  from engine_nonempty [OF assms(1), of fmt out] obtain vr cc cpy df5 df6
    where vr: "value_real fmt (col_value m) (IPC_indice fmt (col_IPC m)) = Inr vr"
      and cpy: "cagr_per_year fmt (col_period m) vr = Inr cpy"
      and eng: "engine fmt out m =
        (case cagr fmt (col_period m) vr of
           Inl e \<Rightarrow>
             abort (out @ [fig_real m vr, fig_cumulative m cc,
                      fig_annualized m (real_annualized_change fmt (real_monthly_change fmt vr)),
                      CsvFile ''precio_oro_eur.csv'' df5, fig_cagr cpy]) e
         | Inr c \<Rightarrow>
             \<lparr>artifacts = out @ [fig_real m vr, fig_cumulative m cc,
                      fig_annualized m (real_annualized_change fmt (real_monthly_change fmt vr)),
                      CsvFile ''precio_oro_eur.csv'' df5, fig_cagr cpy,
                      Stdout (fmul fmt c (Num 100))],
              raised = None, final = Some (df6, cpy, c)\<rparr>)"
    by blast
  have 1: "\<exists>vr cpy c. value_real fmt (col_value m) (IPC_indice fmt (col_IPC m)) = Inr vr
            \<and> cagr_per_year fmt (col_period m) vr = Inr cpy
            \<and> cagr fmt (col_period m) vr = Inr c"
    using vr cpy shape [OF vr] by blast
  have 2: "raised (engine fmt out m) = None"
    using eng shape [OF vr] by simp
  have 3: "cagr exact (col_period m) w = Inr NaN"
    if "value_real exact (col_value m) (IPC_indice exact (col_IPC m)) = Inr w"
      "last w = Num a" "hd w = Num b" "b \<noteq> 0" "a / b < 0" for w a b
  proof -
    have "fdiv exact (last w) (hd w) = Num (a / b)"
      using that by (simp add: exact_def)
    with fpow_negative_base [OF that(5) d] show ?thesis
      by (simp add: shape [OF that(1)])
  qed
  have 4: "cagr exact (col_period m) w =
        Inr (if a = 0 then NaN
             else if toordinal (hd (col_period m)) < toordinal (last (col_period m))
               then Infinity
             else Num (- 1))"
    if "value_real exact (col_value m) (IPC_indice exact (col_IPC m)) = Inr w"
      "last w = Num a" "hd w = Num 0" for w a
  proof -
    have e0: "?e \<noteq> 0" using d exponent_sign(2) [of ?d] by simp
    have epos: "0 < ?e \<longleftrightarrow> toordinal (hd (col_period m)) < toordinal (last (col_period m))"
      using exponent_sign(1) [of ?d] by simp
    have base: "fdiv exact (last w) (hd w) = (if a = 0 then NaN else Infinity)"
      using that by simp
    show ?thesis
    proof (cases "a = 0")
      case True
      with base e0 show ?thesis by (simp add: shape [OF that(1)])
    next
      case False
      with base e0 epos show ?thesis
        by (simp add: shape [OF that(1)] exact_def)
    qed
  qed
  from 1 2 3 4 show ?thesis by blast
qed

theorem C5_no_guard_witness:
  "[(Timestamp 2000 1 1, 1, 0), (Timestamp 2000 2 1, - 1, 0)] \<noteq> ([] :: merged)
   \<and> toordinal (last (col_period [(Timestamp 2000 1 1, 1, 0), (Timestamp 2000 2 1, - 1, 0)]))
       \<noteq> toordinal (hd (col_period [(Timestamp 2000 1 1, 1, 0), (Timestamp 2000 2 1, - 1, 0)]))
   \<and> value_real exact (col_value [(Timestamp 2000 1 1, 1, 0), (Timestamp 2000 2 1, - 1, 0)])
        (IPC_indice exact (col_IPC [(Timestamp 2000 1 1, 1, 0), (Timestamp 2000 2 1, - 1, 0)]))
       = Inr [Num 1, Num (- 1)]
   \<and> cagr_per_year exact (col_period [(Timestamp 2000 1 1, 1, 0), (Timestamp 2000 2 1, - 1, 0)])
        [Num 1, Num (- 1)] = Inr [(2000, Num 0)]
   \<and> cagr exact (col_period [(Timestamp 2000 1 1, 1, 0), (Timestamp 2000 2 1, - 1, 0)])
        [Num 1, Num (- 1)] = Inr NaN
   \<and> raised (engine exact [] [(Timestamp 2000 1 1, 1, 0), (Timestamp 2000 2 1, - 1, 0)]) = None
   \<and> toordinal (last (col_period [(Timestamp 2001 1 1, 0, 0), (Timestamp 2000 1 1, 5, 0)]))
       \<noteq> toordinal (hd (col_period [(Timestamp 2001 1 1, 0, 0), (Timestamp 2000 1 1, 5, 0)]))
   \<and> value_real exact (col_value [(Timestamp 2001 1 1, 0, 0), (Timestamp 2000 1 1, 5, 0)])
        (IPC_indice exact (col_IPC [(Timestamp 2001 1 1, 0, 0), (Timestamp 2000 1 1, 5, 0)]))
       = Inr [Num 0, Num 5]
   \<and> cagr exact (col_period [(Timestamp 2001 1 1, 0, 0), (Timestamp 2000 1 1, 5, 0)])
        [Num 0, Num 5] = Inr (Num (- 1))
   \<and> raised (engine exact [] [(Timestamp 2001 1 1, 0, 0), (Timestamp 2000 1 1, 5, 0)]) = None"
  using C5_no_guard [of "[(Timestamp 2000 1 1, 1, 0), (Timestamp 2000 2 1, - 1, 0)]" exact "[]"]
    C5_no_guard [of "[(Timestamp 2001 1 1, 0, 0), (Timestamp 2000 1 1, 5, 0)]" exact "[]"]
  by (simp add: engine_defs col_defs ord_defs exact_def)

text \<open>
  The claim as the specification states it, an error that names the failing computation,
  fails on a table whose last real price is negative: the ratio is -1, the exponent
  \<open>365.25 / 31\<close> is not a whole number, the whole-period CAGR is \<open>nan\<close>, nothing is
  raised and the run prints it.
\<close>

theorem C5_counterexample:
  "value_real exact (col_value [(Timestamp 2000 1 1, 1, 0), (Timestamp 2000 2 1, - 1, 0)])
        (IPC_indice exact (col_IPC [(Timestamp 2000 1 1, 1, 0), (Timestamp 2000 2 1, - 1, 0)]))
       = Inr [Num 1, Num (- 1)]
   \<and> cagr_of_merged exact [(Timestamp 2000 1 1, 1, 0), (Timestamp 2000 2 1, - 1, 0)] = Inr NaN
   \<and> raised (engine exact [] [(Timestamp 2000 1 1, 1, 0), (Timestamp 2000 2 1, - 1, 0)]) = None
   \<and> last (artifacts (engine exact [] [(Timestamp 2000 1 1, 1, 0), (Timestamp 2000 2 1, - 1, 0)]))
       = Stdout NaN
   \<and> cagr_of_merged binary64_range [(Timestamp 2000 1 1, 1, 0), (Timestamp 2000 2 1, - 1, 0)]
       = Inr NaN
   \<and> raised (engine binary64_range [] [(Timestamp 2000 1 1, 1, 0), (Timestamp 2000 2 1, - 1, 0)])
       = None"
  by (simp add: cagr_of_merged_def engine_defs col_defs ord_defs exact_def binary64_range_def)

subsection \<open>Claims about the run and its artifacts\<close>

lemma script_loaded:
  assumes "fetch_series w = Inr df" and "read_ipc w = Inr df_ipc"
  shows "script fmt w = engine fmt [fig_nominal (df_oro df)] (merge_inner (df_oro df) df_ipc)"
  using assms by (simp add: script_def)

lemma merge_inner_no_ipc: "merge_inner l [] = []"
  by (induction l) (simp_all add: merge_inner_def case_prod_unfold)

lemma figures_are_not_files:
  "fig_nominal g \<noteq> CsvFile n t" "fig_real m vr \<noteq> CsvFile n t"
  "fig_cumulative m cc \<noteq> CsvFile n t" "fig_annualized m ac \<noteq> CsvFile n t"
  "fig_cagr cpy \<noteq> CsvFile n t"
  by (simp_all add: fig_nominal_def fig_real_def fig_cumulative_def fig_annualized_def
      fig_cagr_def)

lemma figures_are_not_stdout:
  "fig_nominal g \<noteq> Stdout x" "fig_real m vr \<noteq> Stdout x"
  "fig_cumulative m cc \<noteq> Stdout x" "fig_annualized m ac \<noteq> Stdout x"
  "fig_cagr cpy \<noteq> Stdout x"
  by (simp_all add: fig_nominal_def fig_real_def fig_cumulative_def fig_annualized_def
      fig_cagr_def)

text \<open>
  C3 (empty join), as the script has it. When both series load and their inner join is
  empty, the run, in every format, stops with the \<open>IndexError\<close> of \<open>df_oro_ipc['IPC'].iloc[0]\<close>. The figure
  of the nominal price, drawn before the CPI is loaded, has been shown; no file is written,
  no other figure is shown and nothing is printed.
\<close>

theorem C3_empty_join:
  assumes "fetch_series w = Inr df" and "read_ipc w = Inr df_ipc"
    and "merge_inner (df_oro df) df_ipc = []"
  shows "script fmt w =
    \<lparr>artifacts = [fig_nominal (df_oro df)], raised = Some IndexError, final = None\<rparr>"
  using assms by (simp add: script_loaded engine_empty abort_def)

theorem C3_empty_join_witness:
  "merge_inner (df_oro [(Timestamp 2000 1 1, 100)]) [] = []
   \<and> script exact \<lparr>fetch_series = Inr [(Timestamp 2000 1 1, 100)], read_ipc = Inr []\<rparr>
     = \<lparr>artifacts = [fig_nominal (df_oro [(Timestamp 2000 1 1, 100)])],
        raised = Some IndexError, final = None\<rparr>"
  using C3_empty_join [of "\<lparr>fetch_series = Inr [(Timestamp 2000 1 1, 100)], read_ipc = Inr []\<rparr>" "[(Timestamp 2000 1 1, 100)]" "[]" exact]
  by (simp add: merge_inner_no_ipc)

text \<open>
  The claim as the specification states it, an "insufficient data" signal and no plot,
  fails on an empty CPI series: the exception is an \<open>IndexError\<close> and the figure of the
  nominal price has been shown.
\<close>

theorem C3_counterexample:
  "raised (script exact \<lparr>fetch_series = Inr [(Timestamp 2000 1 1, 100)], read_ipc = Inr []\<rparr>) = Some IndexError
   \<and> artifacts (script exact \<lparr>fetch_series = Inr [(Timestamp 2000 1 1, 100)], read_ipc = Inr []\<rparr>)
     = [Figure ''Precio mensual del oro (EUR) desde 2000''
          [([], [Date (Timestamp 2000 1 1)], [Num 100])]]"
  by (simp add: script_def df_oro_def merge_inner_def engine_empty abort_def fig_nominal_def
      ord_defs)

text \<open>
  C4 (outputs on failure), as the script has it, in every format. A run that raises stops
  at the raising statement: it has no final values and has printed nothing, and it keeps the artifacts of
  the statements before. A failed fetch of the gold series leaves nothing. A failed load of
  the CPI, or an empty join, leaves the figure of the nominal price. On a non-empty join
  the only exception is the \<open>ZeroDivisionError\<close> of the whole-period CAGR, and it leaves
  all five figures and the CSV file.
\<close>

theorem C4_failure_keeps_earlier_artifacts:
  assumes "raised (script fmt w) = Some e"
  shows "final (script fmt w) = None
    \<and> (\<forall>x. Stdout x \<notin> set (artifacts (script fmt w)))
    \<and> ((fetch_series w = Inl e \<and> artifacts (script fmt w) = [])
       \<or> (\<exists>df. fetch_series w = Inr df \<and> read_ipc w = Inl e
             \<and> artifacts (script fmt w) = [fig_nominal (df_oro df)])
       \<or> (\<exists>df df_ipc. fetch_series w = Inr df \<and> read_ipc w = Inr df_ipc
             \<and> merge_inner (df_oro df) df_ipc = [] \<and> e = IndexError
             \<and> artifacts (script fmt w) = [fig_nominal (df_oro df)])
       \<or> (\<exists>df df_ipc vr cc ac t cpy. fetch_series w = Inr df \<and> read_ipc w = Inr df_ipc
             \<and> merge_inner (df_oro df) df_ipc \<noteq> [] \<and> e = ZeroDivisionError
             \<and> artifacts (script fmt w) =
                 [fig_nominal (df_oro df),
                  fig_real (merge_inner (df_oro df) df_ipc) vr,
                  fig_cumulative (merge_inner (df_oro df) df_ipc) cc,
                  fig_annualized (merge_inner (df_oro df) df_ipc) ac,
                  CsvFile ''precio_oro_eur.csv'' t,
                  fig_cagr cpy]))"
proof (cases "fetch_series w")
  case (Inl e')
  with assms show ?thesis by (simp add: script_def abort_def)
next
  case (Inr df)
  note fetch = this
  show ?thesis
  proof (cases "read_ipc w")
    case (Inl e')
    with fetch assms show ?thesis
      by (simp add: script_def abort_def figures_are_not_stdout figures_are_not_stdout [symmetric])
  next
    case (Inr df_ipc)
    note load = this
    let ?m = "merge_inner (df_oro df) df_ipc"
    have run: "script fmt w = engine fmt [fig_nominal (df_oro df)] ?m"
      using fetch load by (rule script_loaded)
    show ?thesis
    proof (cases "?m = []")
      case True
      with run assms fetch load show ?thesis
        by (simp add: engine_empty abort_def figures_are_not_stdout figures_are_not_stdout [symmetric])
    next
      case False
      from engine_nonempty [OF False, of fmt "[fig_nominal (df_oro df)]"] obtain vr cc cpy t t'
        where vr: "value_real fmt (col_value ?m) (IPC_indice fmt (col_IPC ?m)) = Inr vr"
          and eng: "engine fmt [fig_nominal (df_oro df)] ?m =
            (case cagr fmt (col_period ?m) vr of
               Inl e \<Rightarrow>
                 abort ([fig_nominal (df_oro df)] @ [fig_real ?m vr, fig_cumulative ?m cc,
                      fig_annualized ?m (real_annualized_change fmt (real_monthly_change fmt vr)),
                      CsvFile ''precio_oro_eur.csv'' t, fig_cagr cpy]) e
             | Inr c \<Rightarrow>
                 \<lparr>artifacts = [fig_nominal (df_oro df)] @ [fig_real ?m vr, fig_cumulative ?m cc,
                      fig_annualized ?m (real_annualized_change fmt (real_monthly_change fmt vr)),
                      CsvFile ''precio_oro_eur.csv'' t, fig_cagr cpy, Stdout (fmul fmt c (Num 100))],
                  raised = None, final = Some (t', cpy, c)\<rparr>)"
        by blast
      from value_real_length [OF vr] False have vne: "vr \<noteq> []"
        by (auto simp: col_lengths length_IPC_indice)
      show ?thesis
      proof (cases "cagr fmt (col_period ?m) vr")
        case (Inl e')
        moreover from False have "col_period ?m \<noteq> []" by (simp add: col_period_def)
        ultimately have e': "e' = ZeroDivisionError"
          by (simp add: cagr_nonempty [OF vne] split: if_splits)
        from Inl eng run have out: "script fmt w =
            abort [fig_nominal (df_oro df), fig_real ?m vr, fig_cumulative ?m cc,
                   fig_annualized ?m (real_annualized_change fmt (real_monthly_change fmt vr)),
                   CsvFile ''precio_oro_eur.csv'' t, fig_cagr cpy] e'"
          by simp
        with assms e' have e: "e = ZeroDivisionError" by (simp add: abort_def)
        have 1: "final (script fmt w) = None" using out by (simp add: abort_def)
        have 2: "\<forall>x. Stdout x \<notin> set (artifacts (script fmt w))"
          using out by (simp add: abort_def figures_are_not_stdout figures_are_not_stdout [symmetric])
        have 3: "artifacts (script fmt w) =
            [fig_nominal (df_oro df), fig_real ?m vr, fig_cumulative ?m cc,
             fig_annualized ?m (real_annualized_change fmt (real_monthly_change fmt vr)),
             CsvFile ''precio_oro_eur.csv'' t, fig_cagr cpy]"
          using out by (simp add: abort_def)
        from 1 2 3 e fetch load False show ?thesis by blast
      next
        case (Inr c)
        with eng run have "raised (script fmt w) = None" by simp
        with assms show ?thesis by simp
      qed
    qed
  qed
qed

theorem C4_failure_keeps_earlier_artifacts_witness:
  "raised (script exact \<lparr>fetch_series = Inr [(Timestamp 2000 1 1, 100)],
        read_ipc = Inr [(Timestamp 2000 1 1, 1 / 2)]\<rparr>) = Some ZeroDivisionError
   \<and> final (script exact \<lparr>fetch_series = Inr [(Timestamp 2000 1 1, 100)],
        read_ipc = Inr [(Timestamp 2000 1 1, 1 / 2)]\<rparr>) = None
   \<and> length (artifacts (script exact \<lparr>fetch_series = Inr [(Timestamp 2000 1 1, 100)],
        read_ipc = Inr [(Timestamp 2000 1 1, 1 / 2)]\<rparr>)) = 6"
  using C4_failure_keeps_earlier_artifacts
    [of exact "\<lparr>fetch_series = Inr [(Timestamp 2000 1 1, 100)],
        read_ipc = Inr [(Timestamp 2000 1 1, 1 / 2)]\<rparr>" ZeroDivisionError]
  by (simp add: script_def df_oro_def merge_inner_def engine_defs col_defs ord_defs exact_def)

text \<open>
  The claim as the specification states it, no file and no chart whenever a stage fails,
  fails on a join of one record: the whole-period CAGR raises \<open>ZeroDivisionError\<close> after
  the file has been written and all the figures have been shown.
\<close>

theorem C4_counterexample:
  "raised (script exact \<lparr>fetch_series = Inr [(Timestamp 2000 1 1, 100)],
        read_ipc = Inr [(Timestamp 2000 1 1, 1 / 2)]\<rparr>) = Some ZeroDivisionError
   \<and> artifacts (script exact \<lparr>fetch_series = Inr [(Timestamp 2000 1 1, 100)],
        read_ipc = Inr [(Timestamp 2000 1 1, 1 / 2)]\<rparr>)
     = [Figure ''Precio mensual del oro (EUR) desde 2000''
          [([], [Date (Timestamp 2000 1 1)], [Num 100])],
        Figure ''Precio mensual del oro: nominal vs real (ajustado por IPC)''
          [(''Precio nominal del oro (EUR)'', [Date (Timestamp 2000 1 1)], [Num 100]),
           (''Precio real del oro (EUR, ajustado IPC)'', [Date (Timestamp 2000 1 1)], [Num 100])],
        Figure ''Incremento acumulado real del precio del oro (ajustado por IPC) desde 2000''
          [(''Incremento acumulado real (%)'', [Date (Timestamp 2000 1 1)], [Num 0])],
        Figure ''Tasa anualizada del incremento real del precio del oro (ajustado por IPC)''
          [(''Tasa anualizada del incremento real (%)'', [Date (Timestamp 2000 1 1)], [NaN])],
        CsvFile ''precio_oro_eur.csv''
          [(''period'', [Date (Timestamp 2000 1 1)]),
           (''value'', [Float (Num 100)]),
           (''IPC'', [Float (Num (1 / 2))]),
           (''IPC_indice'', [Float (Num (201 / 2))]),
           (''value_real'', [Float (Num 100)]),
           (''real_monthly_change'', [Float NaN]),
           (''real_cumulative_change'', [Float (Num 0)]),
           (''real_annualized_change'', [Float NaN])],
        Figure ''CAGR anual del precio real del oro (ajustado por IPC)''
          [([], [Integer 2000], [Num 0])]]"
  by (simp add: script_def df_oro_def merge_inner_def fig_nominal_def engine_defs col_defs
      ord_defs exact_def)

text \<open>
  C9 (the written table), as the script has it, in every format. Whenever both series load and their join
  is not empty, exactly one file is written, \<open>precio_oro_eur.csv\<close>, as the fifth artifact
  of the run. Its columns are, in this order, \<open>period\<close>, \<open>value\<close>, \<open>IPC\<close>, \<open>IPC_indice\<close>,
  \<open>value_real\<close>, \<open>real_monthly_change\<close>, \<open>real_cumulative_change\<close> and
  \<open>real_annualized_change\<close>. The column \<open>year\<close> is added to the table in memory after
  the file is written: the final table of a run that completes has it as its last column.
\<close>

theorem C9_written_columns:
  assumes "fetch_series w = Inr df" and "read_ipc w = Inr df_ipc"
    and "merge_inner (df_oro df) df_ipc \<noteq> []"
  shows "\<exists>t. artifacts (script fmt w) ! 4 = CsvFile ''precio_oro_eur.csv'' t
    \<and> columns t = [''period'', ''value'', ''IPC'', ''IPC_indice'', ''value_real'',
         ''real_monthly_change'', ''real_cumulative_change'', ''real_annualized_change'']
    \<and> (\<forall>n t'. CsvFile n t' \<in> set (artifacts (script fmt w)) \<longrightarrow> n = ''precio_oro_eur.csv'' \<and> t' = t)
    \<and> (\<forall>t6 cpy c. final (script fmt w) = Some (t6, cpy, c) \<longrightarrow> columns t6 = columns t @ [''year''])"
proof -
  let ?m = "merge_inner (df_oro df) df_ipc"
  have run: "script fmt w = engine fmt [fig_nominal (df_oro df)] ?m"
    using assms(1,2) by (rule script_loaded)
  from engine_nonempty [OF assms(3), of fmt "[fig_nominal (df_oro df)]"] obtain vr cc cpy t t'
    where c5: "columns t = [''period'', ''value'', ''IPC'', ''IPC_indice'', ''value_real'',
         ''real_monthly_change'', ''real_cumulative_change'', ''real_annualized_change'']"
      and c6: "columns t' = columns t @ [''year'']"
      and eng: "engine fmt [fig_nominal (df_oro df)] ?m =
            (case cagr fmt (col_period ?m) vr of
               Inl e \<Rightarrow>
                 abort ([fig_nominal (df_oro df)] @ [fig_real ?m vr, fig_cumulative ?m cc,
                      fig_annualized ?m (real_annualized_change fmt (real_monthly_change fmt vr)),
                      CsvFile ''precio_oro_eur.csv'' t, fig_cagr cpy]) e
             | Inr c \<Rightarrow>
                 \<lparr>artifacts = [fig_nominal (df_oro df)] @ [fig_real ?m vr, fig_cumulative ?m cc,
                      fig_annualized ?m (real_annualized_change fmt (real_monthly_change fmt vr)),
                      CsvFile ''precio_oro_eur.csv'' t, fig_cagr cpy, Stdout (fmul fmt c (Num 100))],
                  raised = None, final = Some (t', cpy, c)\<rparr>)"
    by blast
  have 1: "artifacts (script fmt w) ! 4 = CsvFile ''precio_oro_eur.csv'' t"
    using run eng by (simp add: abort_def split: sum.split)
  have 2: "\<forall>n u. CsvFile n u \<in> set (artifacts (script fmt w)) \<longrightarrow> n = ''precio_oro_eur.csv'' \<and> u = t"
    using run eng
    by (simp add: abort_def figures_are_not_files figures_are_not_files [symmetric]
        split: sum.split)
  have 3: "\<forall>t6 cpy c. final (script fmt w) = Some (t6, cpy, c) \<longrightarrow> columns t6 = columns t @ [''year'']"
    using run eng c6 by (simp add: abort_def split: sum.split)
  from 1 2 3 c5 show ?thesis by blast
qed

theorem C9_written_columns_witness:
  "merge_inner (df_oro [(Timestamp 2000 1 1, 100), (Timestamp 2001 1 1, 200)])
      [(Timestamp 2000 1 1, 1 / 2), (Timestamp 2001 1 1, 3 / 10)] \<noteq> []
   \<and> (\<exists>t. artifacts (script exact \<lparr>fetch_series = Inr [(Timestamp 2000 1 1, 100), (Timestamp 2001 1 1, 200)],
          read_ipc = Inr [(Timestamp 2000 1 1, 1 / 2), (Timestamp 2001 1 1, 3 / 10)]\<rparr>) ! 4 = CsvFile ''precio_oro_eur.csv'' t
        \<and> columns t = [''period'', ''value'', ''IPC'', ''IPC_indice'', ''value_real'',
         ''real_monthly_change'', ''real_cumulative_change'', ''real_annualized_change''])
   \<and> raised (script exact \<lparr>fetch_series = Inr [(Timestamp 2000 1 1, 100), (Timestamp 2001 1 1, 200)],
          read_ipc = Inr [(Timestamp 2000 1 1, 1 / 2), (Timestamp 2001 1 1, 3 / 10)]\<rparr>) = None"
  using C9_written_columns
    [of "\<lparr>fetch_series = Inr [(Timestamp 2000 1 1, 100), (Timestamp 2001 1 1, 200)],
          read_ipc = Inr [(Timestamp 2000 1 1, 1 / 2), (Timestamp 2001 1 1, 3 / 10)]\<rparr>"
        "[(Timestamp 2000 1 1, 100), (Timestamp 2001 1 1, 200)]"
        "[(Timestamp 2000 1 1, 1 / 2), (Timestamp 2001 1 1, 3 / 10)]" exact]
  by (simp add: script_def df_oro_def merge_inner_def engine_defs col_defs ord_defs columns_def
      exact_def)

text \<open>
  The claim as the specification states it, a written file with the column \<open>year\<close>, fails on
  a run that completes: the file has eight columns and \<open>year\<close> is not one of them.
\<close>

theorem C9_counterexample:
  "artifacts (script exact \<lparr>fetch_series = Inr [(Timestamp 2000 1 1, 100), (Timestamp 2001 1 1, 200)],
          read_ipc = Inr [(Timestamp 2000 1 1, 1 / 2), (Timestamp 2001 1 1, 3 / 10)]\<rparr>) ! 4
     = CsvFile ''precio_oro_eur.csv''
         [(''period'', [Date (Timestamp 2000 1 1), Date (Timestamp 2001 1 1)]),
          (''value'', [Float (Num 100), Float (Num 200)]),
          (''IPC'', [Float (Num (1 / 2)), Float (Num (3 / 10))]),
          (''IPC_indice'', [Float (Num (201 / 2)), Float (Num (201603 / 2000))]),
          (''value_real'', [Float (Num 100), Float (Num (200000 / 1003))]),
          (''real_monthly_change'', [Float NaN, Float (Num (99700 / 1003))]),
          (''real_cumulative_change'', [Float (Num 0), Float (Num (99700 / 1003))]),
          (''real_annualized_change'',
             [Float NaN, Float (Num ((2000 / 1003) ^ 12 * 100 - 100))])]
   \<and> ''year'' \<notin> set [''period'', ''value'', ''IPC'', ''IPC_indice'', ''value_real'',
         ''real_monthly_change'', ''real_cumulative_change'', ''real_annualized_change'']
   \<and> raised (script exact \<lparr>fetch_series = Inr [(Timestamp 2000 1 1, 100), (Timestamp 2001 1 1, 200)],
          read_ipc = Inr [(Timestamp 2000 1 1, 1 / 2), (Timestamp 2001 1 1, 3 / 10)]\<rparr>) = None"
  by (simp add: script_def df_oro_def merge_inner_def engine_defs col_defs ord_defs exact_def)

end
